theory Spec2Isabelle
  imports Main "HOL-Library.Word"
begin

unbundle bit_operations_syntax

section \<open>Types and platform constants used by jxsysint.c\<close>

text \<open>
  The module includes \<^verbatim>\<open>halp.h\<close> for its types and constants. The scalar types are
  the usual ones of the kernel headers: \<^verbatim>\<open>ULONG\<close> is an unsigned 32-bit integer,
  \<^verbatim>\<open>USHORT\<close> an unsigned 16-bit integer (the width of the \<^verbatim>\<open>Enable\<close> register, written
  with \<^verbatim>\<open>WRITE_REGISTER_USHORT\<close>), \<^verbatim>\<open>KIRQL\<close> an unsigned 8-bit integer
  (\<^verbatim>\<open>UCHAR\<close>) and \<^verbatim>\<open>KAFFINITY\<close> a \<^verbatim>\<open>ULONG\<close>.
\<close>

type_synonym ULONG = "32 word"
type_synonym USHORT = "16 word"
type_synonym KIRQL = "8 word"
type_synonym KAFFINITY = "32 word"

text \<open>
  \<^verbatim>\<open>INTERFACE_TYPE\<close> is an enumeration of bus kinds. The module names three of its
  members; every other member is \<open>OtherInterface k\<close>.
\<close>

datatype INTERFACE_TYPE = Internal | Isa | Eisa | OtherInterface nat

datatype KINTERRUPT_MODE = LevelSensitive | Latched

text \<open>
  The numeric constants of the platform headers, and the build switch \<^verbatim>\<open>_DUO_\<close>, are
  parameters of the model: the functions below are translated for every choice of them.
  \<^verbatim>\<open>HalpEisaBusAffinity\<close> is a variable of the HAL that this module only reads.
\<close>

record platform =
  DEVICE_VECTORS :: ULONG
  MAXIMUM_BUILTIN_VECTOR :: ULONG
  EISA_VECTORS :: ULONG
  MAXIMUM_EISA_VECTOR :: ULONG
  EISA_DEVICE_LEVEL :: KIRQL
  HIGH_LEVEL :: KIRQL
  HalpEisaBusAffinity :: KAFFINITY
  DUO :: bool

text \<open>A platform instance on which the model is evaluated: a uniprocessor Jazz-like system.\<close>

definition jazz :: platform where
  "jazz = \<lparr> DEVICE_VECTORS = 16, MAXIMUM_BUILTIN_VECTOR = 26, EISA_VECTORS = 32,
            MAXIMUM_EISA_VECTOR = 47, EISA_DEVICE_LEVEL = 5, HIGH_LEVEL = 8,
            HalpEisaBusAffinity = 1, DUO = False \<rparr>"

text \<open>The same system built with \<^verbatim>\<open>_DUO_\<close> defined (two processors on the EISA bus).\<close>

definition duo :: platform where
  "duo = jazz \<lparr> HalpEisaBusAffinity := 3, DUO := True \<rparr>"

section \<open>HalGetInterruptVector\<close>

text \<open>
  The function returns the system vector and stores through the two out pointers
  \<^verbatim>\<open>Irql\<close> and \<^verbatim>\<open>Affinity\<close>; the model returns the three values together.
\<close>

record interrupt_vector =
  ReturnValue :: ULONG
  IrqlOut :: KIRQL
  AffinityOut :: KAFFINITY

definition HalGetInterruptVector ::
  "platform \<Rightarrow> INTERFACE_TYPE \<Rightarrow> ULONG \<Rightarrow> ULONG \<Rightarrow> ULONG \<Rightarrow> interrupt_vector" where
  "HalGetInterruptVector p InterfaceType BusNumber BusInterruptLevel BusInterruptVector =
     (if InterfaceType = Internal then
        \<lparr> ReturnValue = BusInterruptVector,
          IrqlOut = ucast BusInterruptLevel,
          AffinityOut = 1 \<rparr>
      else if InterfaceType \<noteq> Isa \<and> InterfaceType \<noteq> Eisa then
        \<lparr> ReturnValue = 0, IrqlOut = 0, AffinityOut = 0 \<rparr>
      else
        let BusInterruptLevel' = (if BusInterruptLevel = 2 then 9 else BusInterruptLevel)
        in \<lparr> ReturnValue = BusInterruptLevel' + EISA_VECTORS p,
             IrqlOut = EISA_DEVICE_LEVEL p,
             AffinityOut = HalpEisaBusAffinity p \<rparr>)"

section \<open>Machine state and the collaborators\<close>

text \<open>
  What the module reads and writes: the in-memory mirror \<^verbatim>\<open>HalpBuiltinInterruptEnable\<close>,
  the \<^verbatim>\<open>Enable\<close> register of the interrupt controller, the \<^verbatim>\<open>IpInterruptRequest\<close>
  register of the DMA controller and the IRQL of the executing processor. Every call of
  a collaborator and every register write is also recorded, in order, in \<open>trace\<close>.
\<close>

datatype event =
    RaiseIrql KIRQL
  | LowerIrql KIRQL
  | AcquireSpinLock
  | ReleaseSpinLock
  | WriteEnable USHORT
  | WriteIpInterruptRequest ULONG
  | DisableEisaInterrupt ULONG
  | EnableEisaInterrupt ULONG KINTERRUPT_MODE

record hal_state =
  HalpBuiltinInterruptEnable :: USHORT
  Enable :: USHORT
  IpInterruptRequest :: ULONG
  CurrentIrql :: KIRQL
  trace :: "event list"

definition record_event :: "event \<Rightarrow> hal_state \<Rightarrow> hal_state" where
  "record_event e s = s \<lparr> trace := trace s @ [e] \<rparr>"

text \<open>
  Modelled from the spec: \<^verbatim>\<open>KeRaiseIrql\<close> and \<^verbatim>\<open>KeLowerIrql\<close> are not in this module.
  Raising sets the processor's level and hands back the prior one; lowering sets the
  level to the one given.
\<close>

definition KeRaiseIrql :: "KIRQL \<Rightarrow> hal_state \<Rightarrow> KIRQL \<times> hal_state" where
  "KeRaiseIrql NewIrql s =
     (CurrentIrql s, record_event (RaiseIrql NewIrql) (s \<lparr> CurrentIrql := NewIrql \<rparr>))"

definition KeLowerIrql :: "KIRQL \<Rightarrow> hal_state \<Rightarrow> hal_state" where
  "KeLowerIrql NewIrql s = record_event (LowerIrql NewIrql) (s \<lparr> CurrentIrql := NewIrql \<rparr>)"

text \<open>
  Modelled from the spec: \<^verbatim>\<open>KiAcquireSpinLock\<close> and \<^verbatim>\<open>KiReleaseSpinLock\<close> on
  \<^verbatim>\<open>HalpSystemInterruptLock\<close> are not in this module. In this sequential model the
  lock is free whenever a routine asks for it, so the two calls are recorded only.
\<close>

definition KiAcquireSpinLock :: "hal_state \<Rightarrow> hal_state" where
  "KiAcquireSpinLock s = record_event AcquireSpinLock s"

definition KiReleaseSpinLock :: "hal_state \<Rightarrow> hal_state" where
  "KiReleaseSpinLock s = record_event ReleaseSpinLock s"

text \<open>
  Modelled from the spec: the register access macros are not in this module. A write
  stores the whole value in the register.
\<close>

definition WRITE_REGISTER_USHORT_Enable :: "USHORT \<Rightarrow> hal_state \<Rightarrow> hal_state" where
  "WRITE_REGISTER_USHORT_Enable v s = record_event (WriteEnable v) (s \<lparr> Enable := v \<rparr>)"

definition WRITE_REGISTER_ULONG_IpInterruptRequest :: "ULONG \<Rightarrow> hal_state \<Rightarrow> hal_state" where
  "WRITE_REGISTER_ULONG_IpInterruptRequest v s =
     record_event (WriteIpInterruptRequest v) (s \<lparr> IpInterruptRequest := v \<rparr>)"

text \<open>
  Modelled from the spec: the EISA bus routines \<^verbatim>\<open>HalpDisableEisaInterrupt\<close> and
  \<^verbatim>\<open>HalpEnableEisaInterrupt\<close> are not in this module. They program the bus
  controller, which is not part of \<open>hal_state\<close>: the calls are recorded only.
\<close>

definition HalpDisableEisaInterrupt :: "ULONG \<Rightarrow> hal_state \<Rightarrow> hal_state" where
  "HalpDisableEisaInterrupt Vector s = record_event (DisableEisaInterrupt Vector) s"

definition HalpEnableEisaInterrupt :: "ULONG \<Rightarrow> KINTERRUPT_MODE \<Rightarrow> hal_state \<Rightarrow> hal_state" where
  "HalpEnableEisaInterrupt Vector InterruptMode s =
     record_event (EnableEisaInterrupt Vector InterruptMode) s"

section \<open>HalDisableSystemInterrupt and HalEnableSystemInterrupt\<close>

text \<open>
  The expression \<^verbatim>\<open>1 << (Vector - DEVICE_VECTORS - 1)\<close>. The subtraction is \<^verbatim>\<open>ULONG\<close>
  arithmetic; the shifted \<^verbatim>\<open>1\<close> is a 32-bit \<^verbatim>\<open>int\<close>. C defines the shift for counts
  below the width of the left operand only: for a count of 32 or more the result is
  \<open>None\<close>, and so is the result of the routine that evaluates it.
\<close>

definition builtin_bit :: "platform \<Rightarrow> ULONG \<Rightarrow> ULONG option" where
  "builtin_bit p Vector =
     (let n = Vector - DEVICE_VECTORS p - 1
      in if n < 32 then Some (push_bit (unat n) 1) else None)"

text \<open>
  The compound assignments on the \<^verbatim>\<open>USHORT\<close> mirror: the mirror is widened to 32
  bits, combined with the 32-bit operand, and the result is cut to 16 bits when stored.
\<close>

definition and_not_assign :: "USHORT \<Rightarrow> ULONG \<Rightarrow> USHORT" where
  "and_not_assign m b = ucast ((ucast m :: ULONG) AND NOT b)"

definition or_assign :: "USHORT \<Rightarrow> ULONG \<Rightarrow> USHORT" where
  "or_assign m b = ucast ((ucast m :: ULONG) OR b)"

definition HalDisableSystemInterrupt ::
  "platform \<Rightarrow> ULONG \<Rightarrow> KIRQL \<Rightarrow> hal_state \<Rightarrow> hal_state option" where
  "HalDisableSystemInterrupt p Vector Irql s =
     (let (OldIrql, s1) = KeRaiseIrql (HIGH_LEVEL p) s;
          s2 = KiAcquireSpinLock s1;
          r3 = (if DEVICE_VECTORS p + 1 \<le> Vector \<and> Vector \<le> MAXIMUM_BUILTIN_VECTOR p then
                  (case builtin_bit p Vector of
                     None \<Rightarrow> None
                   | Some b \<Rightarrow>
                       let s' = s2 \<lparr> HalpBuiltinInterruptEnable :=
                                       and_not_assign (HalpBuiltinInterruptEnable s2) b \<rparr>
                       in Some (WRITE_REGISTER_USHORT_Enable (HalpBuiltinInterruptEnable s') s'))
                else Some s2)
      in case r3 of
           None \<Rightarrow> None
         | Some s3 \<Rightarrow>
             let s4 = (if EISA_VECTORS p \<le> Vector \<and>
                          Vector < EISA_VECTORS p + MAXIMUM_EISA_VECTOR p \<and>
                          Irql = EISA_DEVICE_LEVEL p
                       then HalpDisableEisaInterrupt Vector s3 else s3)
             in Some (KeLowerIrql OldIrql (KiReleaseSpinLock s4)))"

definition HalEnableSystemInterrupt ::
  "platform \<Rightarrow> ULONG \<Rightarrow> KIRQL \<Rightarrow> KINTERRUPT_MODE \<Rightarrow> hal_state \<Rightarrow> (bool \<times> hal_state) option" where
  "HalEnableSystemInterrupt p Vector Irql InterruptMode s =
     (let (OldIrql, s1) = KeRaiseIrql (HIGH_LEVEL p) s;
          s2 = KiAcquireSpinLock s1;
          r3 = (if DEVICE_VECTORS p + 1 \<le> Vector \<and> Vector \<le> MAXIMUM_BUILTIN_VECTOR p then
                  (case builtin_bit p Vector of
                     None \<Rightarrow> None
                   | Some b \<Rightarrow>
                       let s' = s2 \<lparr> HalpBuiltinInterruptEnable :=
                                       or_assign (HalpBuiltinInterruptEnable s2) b \<rparr>
                       in Some (WRITE_REGISTER_USHORT_Enable (HalpBuiltinInterruptEnable s') s'))
                else Some s2)
      in case r3 of
           None \<Rightarrow> None
         | Some s3 \<Rightarrow>
             let s4 = (if EISA_VECTORS p \<le> Vector \<and>
                          Vector < EISA_VECTORS p + MAXIMUM_EISA_VECTOR p \<and>
                          Irql = EISA_DEVICE_LEVEL p
                       then HalpEnableEisaInterrupt Vector InterruptMode s3 else s3)
             in Some (True, KeLowerIrql OldIrql (KiReleaseSpinLock s4)))"

section \<open>HalRequestIpi\<close>

definition HalRequestIpi :: "platform \<Rightarrow> ULONG \<Rightarrow> hal_state \<Rightarrow> hal_state" where
  "HalRequestIpi p Mask s =
     (if DUO p then WRITE_REGISTER_ULONG_IpInterruptRequest Mask s else s)"

section \<open>Observations used to state the properties\<close>

text \<open>The values written to the \<^verbatim>\<open>Enable\<close> register, oldest first.\<close>

fun enable_writes :: "event list \<Rightarrow> USHORT list" where
  "enable_writes [] = []"
| "enable_writes (WriteEnable v # es) = v # enable_writes es"
| "enable_writes (e # es) = enable_writes es"

text \<open>The values written to the \<^verbatim>\<open>IpInterruptRequest\<close> register, oldest first.\<close>

fun ipi_writes :: "event list \<Rightarrow> ULONG list" where
  "ipi_writes [] = []"
| "ipi_writes (WriteIpInterruptRequest v # es) = v # ipi_writes es"
| "ipi_writes (e # es) = ipi_writes es"

text \<open>The position in the mask that the code computes for a vector.\<close>

definition builtin_index :: "platform \<Rightarrow> ULONG \<Rightarrow> nat" where
  "builtin_index p Vector = unat (Vector - DEVICE_VECTORS p - 1)"

text \<open>
  The Enable Mask holds one bit per built-in vector: the vectors from
  \<^verbatim>\<open>DEVICE_VECTORS + 1\<close> to \<^verbatim>\<open>MAXIMUM_BUILTIN_VECTOR\<close> are no more than the 16 bits
  of the mask. This is a condition on the platform constants, which are parameters here.
\<close>

definition builtin_vectors_fit :: "platform \<Rightarrow> bool" where
  "builtin_vectors_fit p \<longleftrightarrow>
     unat (MAXIMUM_BUILTIN_VECTOR p) < unat (DEVICE_VECTORS p + 1) + 16"

text \<open>
  The mirror and the \<^verbatim>\<open>Enable\<close> register agree, and if the register has been written at
  all, the mirror is the value written last.
\<close>

definition mirror_is_latest_write :: "hal_state \<Rightarrow> bool" where
  "mirror_is_latest_write s \<longleftrightarrow>
     HalpBuiltinInterruptEnable s = Enable s \<and>
     (enable_writes (trace s) = [] \<or>
      last (enable_writes (trace s)) = HalpBuiltinInterruptEnable s)"

text \<open>A call of enable followed by a call of disable for the same vector.\<close>

definition enable_then_disable ::
  "platform \<Rightarrow> ULONG \<Rightarrow> KIRQL \<Rightarrow> KINTERRUPT_MODE \<Rightarrow> hal_state \<Rightarrow> hal_state option" where
  "enable_then_disable p Vector Irql InterruptMode s =
     (case HalEnableSystemInterrupt p Vector Irql InterruptMode s of
        None \<Rightarrow> None
      | Some (ok, s') \<Rightarrow> HalDisableSystemInterrupt p Vector Irql s')"

text \<open>The state after controller bring-up: every built-in interrupt disabled.\<close>

definition power_on :: hal_state where
  "power_on = \<lparr> HalpBuiltinInterruptEnable = 0, Enable = 0, IpInterruptRequest = 0,
                CurrentIrql = 0, trace = [] \<rparr>"

text \<open>A state in which the first built-in vector (mask bit 0) is enabled already.\<close>

definition first_enabled :: hal_state where
  "first_enabled = power_on \<lparr> HalpBuiltinInterruptEnable := 1, Enable := 1 \<rparr>"

section \<open>Facts about the model\<close>

lemma enable_writes_append: "enable_writes (xs @ ys) = enable_writes xs @ enable_writes ys"
  by (induction xs rule: enable_writes.induct) simp_all

lemma ipi_writes_append: "ipi_writes (xs @ ys) = ipi_writes xs @ ipi_writes ys"
  by (induction xs rule: ipi_writes.induct) simp_all

text \<open>Cutting the 32-bit result back to 16 bits leaves the 16-bit operation.\<close>

lemma or_assign_set_bit: "or_assign m (push_bit n 1) = set_bit n m"
  unfolding or_assign_def
  by (rule bit_word_eqI) (auto simp add: bit_simps)

lemma and_not_assign_unset_bit: "and_not_assign m (push_bit n 1) = unset_bit n m"
  unfolding and_not_assign_def
  by (rule bit_word_eqI) (auto simp add: bit_simps)

lemma builtin_index_bound:
  assumes "builtin_vectors_fit p"
    and "DEVICE_VECTORS p + 1 \<le> Vector" and "Vector \<le> MAXIMUM_BUILTIN_VECTOR p"
  shows "builtin_index p Vector < 16"
proof -
  have "Vector - DEVICE_VECTORS p - 1 = Vector - (DEVICE_VECTORS p + 1)" by simp
  then have "builtin_index p Vector = unat Vector - unat (DEVICE_VECTORS p + 1)"
    using unat_sub [OF assms(2)] by (simp only: builtin_index_def)
  moreover have "unat Vector \<le> unat (MAXIMUM_BUILTIN_VECTOR p)"
    using assms(3) by (simp add: word_le_nat_alt)
  ultimately show ?thesis using assms(1) by (simp add: builtin_vectors_fit_def)
qed

lemma builtin_bit_Some:
  assumes "builtin_index p Vector < 32"
  shows "builtin_bit p Vector = Some (push_bit (builtin_index p Vector) 1)"
proof -
  have "Vector - DEVICE_VECTORS p - 1 < 32"
    using assms by (simp add: builtin_index_def word_less_nat_alt)
  then show ?thesis by (simp add: builtin_bit_def builtin_index_def Let_def)
qed

lemmas collaborator_defs = KeRaiseIrql_def KeLowerIrql_def KiAcquireSpinLock_def
  KiReleaseSpinLock_def WRITE_REGISTER_USHORT_Enable_def HalpDisableEisaInterrupt_def
  HalpEnableEisaInterrupt_def record_event_def

text \<open>The three paths of HalEnableSystemInterrupt, each with the state it returns.\<close>

lemma HalEnableSystemInterrupt_builtin:
  assumes "DEVICE_VECTORS p + 1 \<le> Vector" "Vector \<le> MAXIMUM_BUILTIN_VECTOR p"
    and "builtin_bit p Vector = Some b"
  shows "HalEnableSystemInterrupt p Vector Irql InterruptMode s =
     Some (True, s \<lparr> HalpBuiltinInterruptEnable := or_assign (HalpBuiltinInterruptEnable s) b,
                     Enable := or_assign (HalpBuiltinInterruptEnable s) b,
                     trace := trace s @
                       [RaiseIrql (HIGH_LEVEL p), AcquireSpinLock,
                        WriteEnable (or_assign (HalpBuiltinInterruptEnable s) b)] @
                       (if EISA_VECTORS p \<le> Vector \<and>
                           Vector < EISA_VECTORS p + MAXIMUM_EISA_VECTOR p \<and>
                           Irql = EISA_DEVICE_LEVEL p
                        then [EnableEisaInterrupt Vector InterruptMode] else []) @
                       [ReleaseSpinLock, LowerIrql (CurrentIrql s)] \<rparr>)"
  using assms by (simp add: HalEnableSystemInterrupt_def collaborator_defs Let_def)

lemma HalEnableSystemInterrupt_undefined:
  assumes "DEVICE_VECTORS p + 1 \<le> Vector" "Vector \<le> MAXIMUM_BUILTIN_VECTOR p"
    and "builtin_bit p Vector = None"
  shows "HalEnableSystemInterrupt p Vector Irql InterruptMode s = None"
  using assms by (simp add: HalEnableSystemInterrupt_def collaborator_defs Let_def)

lemma HalEnableSystemInterrupt_other:
  assumes "\<not> (DEVICE_VECTORS p + 1 \<le> Vector \<and> Vector \<le> MAXIMUM_BUILTIN_VECTOR p)"
  shows "HalEnableSystemInterrupt p Vector Irql InterruptMode s =
     Some (True, s \<lparr> trace := trace s @
                       [RaiseIrql (HIGH_LEVEL p), AcquireSpinLock] @
                       (if EISA_VECTORS p \<le> Vector \<and>
                           Vector < EISA_VECTORS p + MAXIMUM_EISA_VECTOR p \<and>
                           Irql = EISA_DEVICE_LEVEL p
                        then [EnableEisaInterrupt Vector InterruptMode] else []) @
                       [ReleaseSpinLock, LowerIrql (CurrentIrql s)] \<rparr>)"
proof -
  have "(if DEVICE_VECTORS p + 1 \<le> Vector \<and> Vector \<le> MAXIMUM_BUILTIN_VECTOR p
         then x else y) = y" for x y :: "hal_state option"
    using assms by (rule if_not_P)
  then show ?thesis
    by (simp add: HalEnableSystemInterrupt_def collaborator_defs Let_def)
qed

text \<open>The three paths of HalDisableSystemInterrupt.\<close>

lemma HalDisableSystemInterrupt_builtin:
  assumes "DEVICE_VECTORS p + 1 \<le> Vector" "Vector \<le> MAXIMUM_BUILTIN_VECTOR p"
    and "builtin_bit p Vector = Some b"
  shows "HalDisableSystemInterrupt p Vector Irql s =
     Some (s \<lparr> HalpBuiltinInterruptEnable := and_not_assign (HalpBuiltinInterruptEnable s) b,
               Enable := and_not_assign (HalpBuiltinInterruptEnable s) b,
               trace := trace s @
                 [RaiseIrql (HIGH_LEVEL p), AcquireSpinLock,
                  WriteEnable (and_not_assign (HalpBuiltinInterruptEnable s) b)] @
                 (if EISA_VECTORS p \<le> Vector \<and>
                     Vector < EISA_VECTORS p + MAXIMUM_EISA_VECTOR p \<and>
                     Irql = EISA_DEVICE_LEVEL p
                  then [DisableEisaInterrupt Vector] else []) @
                 [ReleaseSpinLock, LowerIrql (CurrentIrql s)] \<rparr>)"
  using assms by (simp add: HalDisableSystemInterrupt_def collaborator_defs Let_def)

lemma HalDisableSystemInterrupt_undefined:
  assumes "DEVICE_VECTORS p + 1 \<le> Vector" "Vector \<le> MAXIMUM_BUILTIN_VECTOR p"
    and "builtin_bit p Vector = None"
  shows "HalDisableSystemInterrupt p Vector Irql s = None"
  using assms by (simp add: HalDisableSystemInterrupt_def collaborator_defs Let_def)

lemma HalDisableSystemInterrupt_other:
  assumes "\<not> (DEVICE_VECTORS p + 1 \<le> Vector \<and> Vector \<le> MAXIMUM_BUILTIN_VECTOR p)"
  shows "HalDisableSystemInterrupt p Vector Irql s =
     Some (s \<lparr> trace := trace s @
                 [RaiseIrql (HIGH_LEVEL p), AcquireSpinLock] @
                 (if EISA_VECTORS p \<le> Vector \<and>
                     Vector < EISA_VECTORS p + MAXIMUM_EISA_VECTOR p \<and>
                     Irql = EISA_DEVICE_LEVEL p
                  then [DisableEisaInterrupt Vector] else []) @
                 [ReleaseSpinLock, LowerIrql (CurrentIrql s)] \<rparr>)"
proof -
  have "(if DEVICE_VECTORS p + 1 \<le> Vector \<and> Vector \<le> MAXIMUM_BUILTIN_VECTOR p
         then x else y) = y" for x y :: "hal_state option"
    using assms by (rule if_not_P)
  then show ?thesis
    by (simp add: HalDisableSystemInterrupt_def collaborator_defs Let_def)
qed

text \<open>On a platform whose built-in vectors fit the mask, the built-in path in closed form.\<close>

lemma enable_builtin_fit:
  assumes "builtin_vectors_fit p"
    and "DEVICE_VECTORS p + 1 \<le> Vector" and "Vector \<le> MAXIMUM_BUILTIN_VECTOR p"
  shows "HalEnableSystemInterrupt p Vector Irql InterruptMode s =
     Some (True, s \<lparr> HalpBuiltinInterruptEnable :=
                       set_bit (builtin_index p Vector) (HalpBuiltinInterruptEnable s),
                     Enable := set_bit (builtin_index p Vector) (HalpBuiltinInterruptEnable s),
                     trace := trace s @
                       [RaiseIrql (HIGH_LEVEL p), AcquireSpinLock,
                        WriteEnable (set_bit (builtin_index p Vector)
                                       (HalpBuiltinInterruptEnable s))] @
                       (if EISA_VECTORS p \<le> Vector \<and>
                           Vector < EISA_VECTORS p + MAXIMUM_EISA_VECTOR p \<and>
                           Irql = EISA_DEVICE_LEVEL p
                        then [EnableEisaInterrupt Vector InterruptMode] else []) @
                       [ReleaseSpinLock, LowerIrql (CurrentIrql s)] \<rparr>)"
proof -
  have "builtin_index p Vector < 32"
    using builtin_index_bound [OF assms] by simp
  then have b: "builtin_bit p Vector = Some (push_bit (builtin_index p Vector) 1)"
    by (rule builtin_bit_Some)
  show ?thesis
    unfolding HalEnableSystemInterrupt_builtin [OF assms(2,3) b] or_assign_set_bit ..
qed

lemma disable_builtin_fit:
  assumes "builtin_vectors_fit p"
    and "DEVICE_VECTORS p + 1 \<le> Vector" and "Vector \<le> MAXIMUM_BUILTIN_VECTOR p"
  shows "HalDisableSystemInterrupt p Vector Irql s =
     Some (s \<lparr> HalpBuiltinInterruptEnable :=
                 unset_bit (builtin_index p Vector) (HalpBuiltinInterruptEnable s),
               Enable := unset_bit (builtin_index p Vector) (HalpBuiltinInterruptEnable s),
               trace := trace s @
                 [RaiseIrql (HIGH_LEVEL p), AcquireSpinLock,
                  WriteEnable (unset_bit (builtin_index p Vector)
                                 (HalpBuiltinInterruptEnable s))] @
                 (if EISA_VECTORS p \<le> Vector \<and>
                     Vector < EISA_VECTORS p + MAXIMUM_EISA_VECTOR p \<and>
                     Irql = EISA_DEVICE_LEVEL p
                  then [DisableEisaInterrupt Vector] else []) @
                 [ReleaseSpinLock, LowerIrql (CurrentIrql s)] \<rparr>)"
proof -
  have "builtin_index p Vector < 32"
    using builtin_index_bound [OF assms] by simp
  then have b: "builtin_bit p Vector = Some (push_bit (builtin_index p Vector) 1)"
    by (rule builtin_bit_Some)
  show ?thesis
    unfolding HalDisableSystemInterrupt_builtin [OF assms(2,3) b] and_not_assign_unset_bit ..
qed

text \<open>What a completed call does to the mirror, the register and the register's writes.\<close>

lemma enable_keeps_mirror_and_register:
  assumes "HalEnableSystemInterrupt p Vector Irql InterruptMode s = Some (b, s')"
  shows "if DEVICE_VECTORS p + 1 \<le> Vector \<and> Vector \<le> MAXIMUM_BUILTIN_VECTOR p
         then Enable s' = HalpBuiltinInterruptEnable s' \<and>
              enable_writes (trace s') = enable_writes (trace s) @ [HalpBuiltinInterruptEnable s']
         else HalpBuiltinInterruptEnable s' = HalpBuiltinInterruptEnable s \<and>
              Enable s' = Enable s \<and>
              enable_writes (trace s') = enable_writes (trace s)"
proof (cases "DEVICE_VECTORS p + 1 \<le> Vector \<and> Vector \<le> MAXIMUM_BUILTIN_VECTOR p")
  case True
  then have lo: "DEVICE_VECTORS p + 1 \<le> Vector" and hi: "Vector \<le> MAXIMUM_BUILTIN_VECTOR p"
    by simp_all
  show ?thesis
  proof (cases "builtin_bit p Vector")
    case None
    with lo hi assms show ?thesis
      by (simp add: HalEnableSystemInterrupt_undefined)
  next
    case (Some m)
    from assms show ?thesis
      unfolding HalEnableSystemInterrupt_builtin [OF lo hi Some]
      using True by (auto simp add: enable_writes_append)
  qed
next
  case False
  from assms show ?thesis
    unfolding HalEnableSystemInterrupt_other [OF False]
    using False by (auto simp add: enable_writes_append)
qed

lemma disable_keeps_mirror_and_register:
  assumes "HalDisableSystemInterrupt p Vector Irql s = Some s'"
  shows "if DEVICE_VECTORS p + 1 \<le> Vector \<and> Vector \<le> MAXIMUM_BUILTIN_VECTOR p
         then Enable s' = HalpBuiltinInterruptEnable s' \<and>
              enable_writes (trace s') = enable_writes (trace s) @ [HalpBuiltinInterruptEnable s']
         else HalpBuiltinInterruptEnable s' = HalpBuiltinInterruptEnable s \<and>
              Enable s' = Enable s \<and>
              enable_writes (trace s') = enable_writes (trace s)"
proof (cases "DEVICE_VECTORS p + 1 \<le> Vector \<and> Vector \<le> MAXIMUM_BUILTIN_VECTOR p")
  case True
  then have lo: "DEVICE_VECTORS p + 1 \<le> Vector" and hi: "Vector \<le> MAXIMUM_BUILTIN_VECTOR p"
    by simp_all
  show ?thesis
  proof (cases "builtin_bit p Vector")
    case None
    with lo hi assms show ?thesis
      by (simp add: HalDisableSystemInterrupt_undefined)
  next
    case (Some m)
    from assms show ?thesis
      unfolding HalDisableSystemInterrupt_builtin [OF lo hi Some]
      using True by (auto simp add: enable_writes_append)
  qed
next
  case False
  from assms show ?thesis
    unfolding HalDisableSystemInterrupt_other [OF False]
    using False by (auto simp add: enable_writes_append)
qed

text \<open>The definitions unfolded to evaluate the model on concrete inputs.\<close>

lemmas evaluation_defs = jazz_def power_on_def builtin_index_def builtin_bit_def
  or_assign_def and_not_assign_def HalEnableSystemInterrupt_def HalDisableSystemInterrupt_def
  collaborator_defs

section \<open>The interrupt gate\<close>

text \<open>
  C1, as amended. On a platform whose built-in vectors fit the mask, for every vector in
  the built-in range and every starting state: enable followed by disable leaves the
  vector's mask bit clear and every other bit as it was before the enable, so the mask is
  back at its value before the enable whenever the vector's bit was clear then; and
  enable of a vector whose bit is set already leaves the mask unchanged.
\<close>

theorem enable_disable_round_trip:
  assumes fit: "builtin_vectors_fit p"
    and lo: "DEVICE_VECTORS p + 1 \<le> Vector" and hi: "Vector \<le> MAXIMUM_BUILTIN_VECTOR p"
  shows "\<exists>s' s''.
           HalEnableSystemInterrupt p Vector Irql InterruptMode s = Some (True, s') \<and>
           HalDisableSystemInterrupt p Vector Irql' s' = Some s'' \<and>
           \<not> bit (HalpBuiltinInterruptEnable s'') (builtin_index p Vector) \<and>
           (\<forall>i. i \<noteq> builtin_index p Vector \<longrightarrow>
              bit (HalpBuiltinInterruptEnable s'') i = bit (HalpBuiltinInterruptEnable s) i) \<and>
           (\<not> bit (HalpBuiltinInterruptEnable s) (builtin_index p Vector) \<longrightarrow>
              HalpBuiltinInterruptEnable s'' = HalpBuiltinInterruptEnable s) \<and>
           (bit (HalpBuiltinInterruptEnable s) (builtin_index p Vector) \<longrightarrow>
              HalpBuiltinInterruptEnable s' = HalpBuiltinInterruptEnable s)"
proof -
  let ?n = "builtin_index p Vector"
  let ?m = "HalpBuiltinInterruptEnable s"
  have n: "?n < LENGTH(16)"
    using builtin_index_bound [OF fit lo hi] by simp
  have both: "bit (unset_bit ?n (set_bit ?n ?m)) i = (i \<noteq> ?n \<and> bit ?m i)" for i
    by (auto simp add: bit_unset_bit_iff bit_set_bit_iff)
  have restored: "unset_bit ?n (set_bit ?n ?m) = ?m" if "\<not> bit ?m ?n"
    using that by (intro bit_word_eqI) (auto simp add: both)
  have unchanged: "set_bit ?n ?m = ?m" if "bit ?m ?n"
    using that by (intro bit_word_eqI) (auto simp add: bit_set_bit_iff)
  show ?thesis
    by (simp add: enable_builtin_fit [OF fit lo hi] disable_builtin_fit [OF fit lo hi]
        both restored unchanged)
qed

theorem enable_disable_round_trip_witness:
  "builtin_vectors_fit jazz \<and> DEVICE_VECTORS jazz + 1 \<le> 20 \<and> 20 \<le> MAXIMUM_BUILTIN_VECTOR jazz
   \<and> builtin_index jazz 20 = 3
   \<and> map_option HalpBuiltinInterruptEnable (enable_then_disable jazz 20 3 Latched power_on)
       = Some (HalpBuiltinInterruptEnable power_on)"
proof -
  have h: "builtin_vectors_fit jazz" "DEVICE_VECTORS jazz + 1 \<le> 20"
    "20 \<le> MAXIMUM_BUILTIN_VECTOR jazz"
    by (simp_all add: jazz_def builtin_vectors_fit_def)
  have i: "builtin_index jazz 20 = 3" "\<not> bit (HalpBuiltinInterruptEnable power_on) 3"
    by (simp_all add: jazz_def builtin_index_def power_on_def)
  from enable_disable_round_trip [OF h, of 3 Latched power_on 3] i
  obtain s' s'' where
    "HalEnableSystemInterrupt jazz 20 3 Latched power_on = Some (True, s')"
    "HalDisableSystemInterrupt jazz 20 3 s' = Some s''"
    "HalpBuiltinInterruptEnable s'' = HalpBuiltinInterruptEnable power_on"
    by auto
  with h i show ?thesis by (simp add: enable_then_disable_def)
qed

text \<open>
  C1 as stated fails when the vector is enabled before the pair of calls: starting with
  mask 1 (vector 17, bit 0, enabled), enable then disable of vector 17 ends with mask 0.
\<close>

theorem enable_disable_round_trip_counterexample:
  "HalpBuiltinInterruptEnable first_enabled = 1
   \<and> builtin_index jazz 17 = 0
   \<and> map_option HalpBuiltinInterruptEnable (enable_then_disable jazz 17 3 Latched first_enabled)
       = Some 0"
  by (simp add: evaluation_defs first_enabled_def enable_then_disable_def)

text \<open>
  C2. On a platform whose built-in vectors fit the mask, for every vector in the built-in
  range HalEnableSystemInterrupt sets and HalDisableSystemInterrupt clears exactly the
  mask bit \<open>1 << (Vector - DEVICE_VECTORS - 1)\<close> of \<^verbatim>\<open>HalpBuiltinInterruptEnable\<close>, every
  other bit stays as it was, and the call writes the whole updated mask to the
  \<^verbatim>\<open>Enable\<close> register in one register write.
\<close>

theorem builtin_enable_disable_one_bit:
  assumes fit: "builtin_vectors_fit p"
    and lo: "DEVICE_VECTORS p + 1 \<le> Vector" and hi: "Vector \<le> MAXIMUM_BUILTIN_VECTOR p"
  shows "(\<exists>s'. HalEnableSystemInterrupt p Vector Irql InterruptMode s = Some (True, s') \<and>
            HalpBuiltinInterruptEnable s' =
              HalpBuiltinInterruptEnable s OR push_bit (builtin_index p Vector) 1 \<and>
            bit (HalpBuiltinInterruptEnable s') (builtin_index p Vector) \<and>
            (\<forall>i. i \<noteq> builtin_index p Vector \<longrightarrow>
               bit (HalpBuiltinInterruptEnable s') i = bit (HalpBuiltinInterruptEnable s) i) \<and>
            Enable s' = HalpBuiltinInterruptEnable s' \<and>
            enable_writes (trace s') = enable_writes (trace s) @ [HalpBuiltinInterruptEnable s']) \<and>
         (\<exists>s'. HalDisableSystemInterrupt p Vector Irql s = Some s' \<and>
            HalpBuiltinInterruptEnable s' =
              HalpBuiltinInterruptEnable s AND NOT (push_bit (builtin_index p Vector) 1) \<and>
            \<not> bit (HalpBuiltinInterruptEnable s') (builtin_index p Vector) \<and>
            (\<forall>i. i \<noteq> builtin_index p Vector \<longrightarrow>
               bit (HalpBuiltinInterruptEnable s') i = bit (HalpBuiltinInterruptEnable s) i) \<and>
            Enable s' = HalpBuiltinInterruptEnable s' \<and>
            enable_writes (trace s') = enable_writes (trace s) @ [HalpBuiltinInterruptEnable s'])"
proof -
  let ?n = "builtin_index p Vector"
  let ?m = "HalpBuiltinInterruptEnable s"
  have n: "?n < LENGTH(16)"
    using builtin_index_bound [OF fit lo hi] by simp
  have set: "bit (set_bit ?n ?m) i = (i = ?n \<or> bit ?m i)" for i
    using n by (auto simp add: bit_set_bit_iff possible_bit_word)
  have clr: "bit (unset_bit ?n ?m) i = (i \<noteq> ?n \<and> bit ?m i)" for i
    by (auto simp add: bit_unset_bit_iff)
  have "\<exists>s'. HalEnableSystemInterrupt p Vector Irql InterruptMode s = Some (True, s') \<and>
          HalpBuiltinInterruptEnable s' = set_bit ?n ?m \<and>
          bit (HalpBuiltinInterruptEnable s') ?n \<and>
          (\<forall>i. i \<noteq> ?n \<longrightarrow> bit (HalpBuiltinInterruptEnable s') i = bit ?m i) \<and>
          Enable s' = HalpBuiltinInterruptEnable s' \<and>
          enable_writes (trace s') = enable_writes (trace s) @ [HalpBuiltinInterruptEnable s']"
    by (simp add: enable_builtin_fit [OF fit lo hi] enable_writes_append set)
  moreover
  have "\<exists>s'. HalDisableSystemInterrupt p Vector Irql s = Some s' \<and>
          HalpBuiltinInterruptEnable s' = unset_bit ?n ?m \<and>
          \<not> bit (HalpBuiltinInterruptEnable s') ?n \<and>
          (\<forall>i. i \<noteq> ?n \<longrightarrow> bit (HalpBuiltinInterruptEnable s') i = bit ?m i) \<and>
          Enable s' = HalpBuiltinInterruptEnable s' \<and>
          enable_writes (trace s') = enable_writes (trace s) @ [HalpBuiltinInterruptEnable s']"
    by (simp add: disable_builtin_fit [OF fit lo hi] enable_writes_append clr)
  ultimately show ?thesis
    unfolding set_bit_eq_or unset_bit_eq_and_not by (rule conjI)
qed

theorem builtin_enable_disable_one_bit_witness:
  "builtin_vectors_fit jazz \<and> DEVICE_VECTORS jazz + 1 \<le> 20 \<and> 20 \<le> MAXIMUM_BUILTIN_VECTOR jazz
   \<and> builtin_index jazz 20 = 3
   \<and> (\<exists>s'. HalEnableSystemInterrupt jazz 20 3 Latched first_enabled = Some (True, s')
          \<and> HalpBuiltinInterruptEnable s' = 9 \<and> Enable s' = 9
          \<and> enable_writes (trace s') = [9])
   \<and> (\<exists>s'. HalDisableSystemInterrupt jazz 20 3 first_enabled = Some s'
          \<and> HalpBuiltinInterruptEnable s' = 1 \<and> Enable s' = 1
          \<and> enable_writes (trace s') = [1])"
proof -
  have h: "builtin_vectors_fit jazz" "DEVICE_VECTORS jazz + 1 \<le> 20"
    "20 \<le> MAXIMUM_BUILTIN_VECTOR jazz"
    by (simp_all add: jazz_def builtin_vectors_fit_def)
  have i: "builtin_index jazz 20 = 3" "HalpBuiltinInterruptEnable first_enabled = 1"
    "trace first_enabled = []"
    by (simp_all add: jazz_def builtin_index_def first_enabled_def power_on_def)
  from builtin_enable_disable_one_bit [OF h, of 3 Latched first_enabled]
  show ?thesis using h by (auto simp add: i)
qed

text \<open>
  C3. After every completed call of HalEnableSystemInterrupt or
  HalDisableSystemInterrupt: if the mirror and the \<^verbatim>\<open>Enable\<close> register agreed before
  the call they agree after it, and if the mirror was the value written last to the
  register it still is; whenever the call changed the mirror, the register holds the new
  mirror and that value is the one write to the register the call made; a call for a
  vector outside the built-in range touches neither.
\<close>

theorem mirror_matches_register:
  assumes "HalEnableSystemInterrupt p Vector Irql InterruptMode s = Some (b, s') \<or>
           HalDisableSystemInterrupt p Vector Irql s = Some s'"
  shows "(HalpBuiltinInterruptEnable s = Enable s \<longrightarrow> HalpBuiltinInterruptEnable s' = Enable s') \<and>
         (mirror_is_latest_write s \<longrightarrow> mirror_is_latest_write s') \<and>
         (HalpBuiltinInterruptEnable s' \<noteq> HalpBuiltinInterruptEnable s \<longrightarrow>
            Enable s' = HalpBuiltinInterruptEnable s' \<and>
            enable_writes (trace s') = enable_writes (trace s) @ [HalpBuiltinInterruptEnable s']) \<and>
         (if DEVICE_VECTORS p + 1 \<le> Vector \<and> Vector \<le> MAXIMUM_BUILTIN_VECTOR p
          then Enable s' = HalpBuiltinInterruptEnable s' \<and>
               enable_writes (trace s') = enable_writes (trace s) @ [HalpBuiltinInterruptEnable s']
          else HalpBuiltinInterruptEnable s' = HalpBuiltinInterruptEnable s \<and>
               Enable s' = Enable s \<and>
               enable_writes (trace s') = enable_writes (trace s))"
proof -
  from assms have
    "if DEVICE_VECTORS p + 1 \<le> Vector \<and> Vector \<le> MAXIMUM_BUILTIN_VECTOR p
     then Enable s' = HalpBuiltinInterruptEnable s' \<and>
          enable_writes (trace s') = enable_writes (trace s) @ [HalpBuiltinInterruptEnable s']
     else HalpBuiltinInterruptEnable s' = HalpBuiltinInterruptEnable s \<and>
          Enable s' = Enable s \<and>
          enable_writes (trace s') = enable_writes (trace s)"
    using enable_keeps_mirror_and_register disable_keeps_mirror_and_register by blast
  then show ?thesis by (auto simp add: mirror_is_latest_write_def split: if_splits)
qed

theorem mirror_matches_register_witness:
  "\<exists>s'. HalEnableSystemInterrupt jazz 20 3 Latched power_on = Some (True, s')
      \<and> mirror_is_latest_write power_on
      \<and> mirror_is_latest_write s'
      \<and> HalpBuiltinInterruptEnable s' = 8
      \<and> Enable s' = 8
      \<and> enable_writes (trace s') = [8]"
proof -
  obtain s' where e: "HalEnableSystemInterrupt jazz 20 3 Latched power_on = Some (True, s')"
    and m: "HalpBuiltinInterruptEnable s' = 8"
    by (simp add: evaluation_defs)
  have r: "DEVICE_VECTORS jazz + 1 \<le> 20 \<and> 20 \<le> MAXIMUM_BUILTIN_VECTOR jazz"
    by (simp add: jazz_def)
  have i: "mirror_is_latest_write power_on"
    by (simp add: mirror_is_latest_write_def power_on_def)
  have "HalEnableSystemInterrupt jazz 20 3 Latched power_on = Some (True, s') \<or>
        HalDisableSystemInterrupt jazz 20 3 power_on = Some s'"
    using e by (rule disjI1)
  from mirror_matches_register [OF this] r m e i show ?thesis
    by (simp add: power_on_def)
qed

text \<open>
  A vector that passes neither test of the two routines: both only raise the IRQL, take
  and release the lock and restore the IRQL; the mask and the register are unchanged, no
  register is written and no EISA routine is called. Every completed call of
  HalEnableSystemInterrupt returns TRUE, and on a platform whose built-in vectors fit the
  mask every call completes.
\<close>

lemma outside_both_tests_is_noop:
  assumes "\<not> (DEVICE_VECTORS p + 1 \<le> Vector \<and> Vector \<le> MAXIMUM_BUILTIN_VECTOR p)"
    and "\<not> (EISA_VECTORS p \<le> Vector \<and> Vector < EISA_VECTORS p + MAXIMUM_EISA_VECTOR p) \<or>
         Irql \<noteq> EISA_DEVICE_LEVEL p"
  shows "HalDisableSystemInterrupt p Vector Irql s =
           Some (s \<lparr> trace := trace s @ [RaiseIrql (HIGH_LEVEL p), AcquireSpinLock,
                                         ReleaseSpinLock, LowerIrql (CurrentIrql s)] \<rparr>) \<and>
         HalEnableSystemInterrupt p Vector Irql InterruptMode s =
           Some (True, s \<lparr> trace := trace s @ [RaiseIrql (HIGH_LEVEL p), AcquireSpinLock,
                                               ReleaseSpinLock, LowerIrql (CurrentIrql s)] \<rparr>) \<and>
         (\<forall>Vector' Irql' InterruptMode' t b t'.
            HalEnableSystemInterrupt p Vector' Irql' InterruptMode' t = Some (b, t') \<longrightarrow> b) \<and>
         (builtin_vectors_fit p \<longrightarrow>
            (\<forall>Vector' Irql' InterruptMode' t.
               \<exists>t'. HalEnableSystemInterrupt p Vector' Irql' InterruptMode' t = Some (True, t')))"
proof -
  have eisa: "\<not> (EISA_VECTORS p \<le> Vector \<and> Vector < EISA_VECTORS p + MAXIMUM_EISA_VECTOR p \<and>
                 Irql = EISA_DEVICE_LEVEL p)"
    using assms(2) by blast
  have dis: "HalDisableSystemInterrupt p Vector Irql s =
           Some (s \<lparr> trace := trace s @ [RaiseIrql (HIGH_LEVEL p), AcquireSpinLock,
                                         ReleaseSpinLock, LowerIrql (CurrentIrql s)] \<rparr>)"
    unfolding HalDisableSystemInterrupt_other [OF assms(1)] if_not_P [OF eisa] by simp
  have en: "HalEnableSystemInterrupt p Vector Irql InterruptMode s =
           Some (True, s \<lparr> trace := trace s @ [RaiseIrql (HIGH_LEVEL p), AcquireSpinLock,
                                               ReleaseSpinLock, LowerIrql (CurrentIrql s)] \<rparr>)"
    unfolding HalEnableSystemInterrupt_other [OF assms(1)] if_not_P [OF eisa] by simp
  have true: "b" if "HalEnableSystemInterrupt p V I M t = Some (b, t')" for V I M t b t'
  proof (cases "DEVICE_VECTORS p + 1 \<le> V \<and> V \<le> MAXIMUM_BUILTIN_VECTOR p")
    case True
    then show ?thesis
      using that
      by (cases "builtin_bit p V")
         (simp_all add: HalEnableSystemInterrupt_undefined HalEnableSystemInterrupt_builtin)
  next
    case False
    from that show ?thesis
      unfolding HalEnableSystemInterrupt_other [OF False] by simp
  qed
  have total: "\<exists>t'. HalEnableSystemInterrupt p V I M t = Some (True, t')"
    if "builtin_vectors_fit p" for V I M t
  proof (cases "DEVICE_VECTORS p + 1 \<le> V \<and> V \<le> MAXIMUM_BUILTIN_VECTOR p")
    case True
    then show ?thesis
      using enable_builtin_fit [OF that, of V I M t] by simp
  next
    case False
    show ?thesis
      unfolding HalEnableSystemInterrupt_other [OF False] by simp
  qed
  from dis en true total show ?thesis by blast
qed

text \<open>
  C6 fails on the code. The EISA test of both routines is
  \<^verbatim>\<open>Vector < EISA_VECTORS + MAXIMUM_EISA_VECTOR\<close>, where the built-in test beside it is
  \<^verbatim>\<open>Vector <= MAXIMUM_BUILTIN_VECTOR\<close>: it admits vectors above \<open>MAXIMUM_EISA_VECTOR\<close>.
  Vector 60 (the resolver's answer for EISA bus level 28) is outside the built-in range
  and above \<open>MAXIMUM_EISA_VECTOR\<close>, and at \<open>EISA_DEVICE_LEVEL\<close> both routines hand it
  to the EISA bus routine.
\<close>

theorem eisa_test_admits_vectors_above_maximum:
  "\<not> (DEVICE_VECTORS jazz + 1 \<le> 60 \<and> 60 \<le> MAXIMUM_BUILTIN_VECTOR jazz)
   \<and> MAXIMUM_EISA_VECTOR jazz < 60
   \<and> 60 < EISA_VECTORS jazz + MAXIMUM_EISA_VECTOR jazz
   \<and> ReturnValue (HalGetInterruptVector jazz Eisa 0 28 0) = 60
   \<and> IrqlOut (HalGetInterruptVector jazz Eisa 0 28 0) = 5
   \<and> HalEnableSystemInterrupt jazz 60 5 Latched power_on =
       Some (True, power_on \<lparr> trace := [RaiseIrql 8, AcquireSpinLock,
                                         EnableEisaInterrupt 60 Latched,
                                         ReleaseSpinLock, LowerIrql 0] \<rparr>)
   \<and> HalDisableSystemInterrupt jazz 60 5 power_on =
       Some (power_on \<lparr> trace := [RaiseIrql 8, AcquireSpinLock,
                                   DisableEisaInterrupt 60,
                                   ReleaseSpinLock, LowerIrql 0] \<rparr>)"
  by (simp add: evaluation_defs HalGetInterruptVector_def)

section \<open>The IPI dispatcher\<close>

text \<open>
  C7. Built with \<^verbatim>\<open>_DUO_\<close>, HalRequestIpi makes exactly one write to the
  \<^verbatim>\<open>IpInterruptRequest\<close> register, of the value \<open>Mask\<close> itself, and nothing else;
  built without it, the call leaves the state as it was.
\<close>

theorem request_ipi_single_write:
  "HalRequestIpi p Mask s =
     (if DUO p then s \<lparr> IpInterruptRequest := Mask,
                        trace := trace s @ [WriteIpInterruptRequest Mask] \<rparr>
      else s) \<and>
   ipi_writes (trace (HalRequestIpi p Mask s)) =
     ipi_writes (trace s) @ (if DUO p then [Mask] else []) \<and>
   enable_writes (trace (HalRequestIpi p Mask s)) = enable_writes (trace s)"
  by (simp add: HalRequestIpi_def WRITE_REGISTER_ULONG_IpInterruptRequest_def record_event_def
      ipi_writes_append enable_writes_append)

theorem request_ipi_single_write_witness:
  "DUO duo \<and> \<not> DUO jazz
   \<and> ipi_writes (trace (HalRequestIpi duo 10 power_on)) = [10]
   \<and> bit (10 :: ULONG) 1 \<and> bit (10 :: ULONG) 3
   \<and> ipi_writes (trace (HalRequestIpi duo 0 power_on)) = [0]
   \<and> HalRequestIpi jazz 10 power_on = power_on"
proof -
  have d: "DUO duo" "\<not> DUO jazz" "trace power_on = []"
    by (simp_all add: duo_def jazz_def power_on_def)
  have b: "bit (10 :: ULONG) 1" "bit (10 :: ULONG) 3"
    by simp_all
  from request_ipi_single_write [of duo 10 power_on]
       request_ipi_single_write [of duo 0 power_on]
       request_ipi_single_write [of jazz 10 power_on] d b
  show ?thesis by simp
qed

section \<open>The vector resolver\<close>

text \<open>
  C4. For the interface types Isa and Eisa: bus interrupt level 2 resolves to the same
  system vector as level 9; for every other level \<open>L\<close> the system vector is
  \<open>L + EISA_VECTORS\<close> (the \<^verbatim>\<open>ULONG\<close> sum, which wraps at \<open>2 ^ 32\<close>); the priority is
  always \<open>EISA_DEVICE_LEVEL\<close> and the affinity always \<open>HalpEisaBusAffinity\<close>; the bus
  number and the bus interrupt vector do not influence the result.
\<close>

theorem external_bus_resolution:
  assumes "InterfaceType = Isa \<or> InterfaceType = Eisa"
  shows "ReturnValue (HalGetInterruptVector p InterfaceType BusNumber 2 BusInterruptVector)
           = ReturnValue (HalGetInterruptVector p InterfaceType BusNumber' 9 BusInterruptVector')
       \<and> (L \<noteq> 2 \<longrightarrow>
            ReturnValue (HalGetInterruptVector p InterfaceType BusNumber L BusInterruptVector)
              = L + EISA_VECTORS p
          \<and> unat (ReturnValue (HalGetInterruptVector p InterfaceType BusNumber L BusInterruptVector))
              = (unat L + unat (EISA_VECTORS p)) mod 2 ^ 32)
       \<and> IrqlOut (HalGetInterruptVector p InterfaceType BusNumber L BusInterruptVector)
           = EISA_DEVICE_LEVEL p
       \<and> AffinityOut (HalGetInterruptVector p InterfaceType BusNumber L BusInterruptVector)
           = HalpEisaBusAffinity p
       \<and> HalGetInterruptVector p InterfaceType BusNumber L BusInterruptVector
           = HalGetInterruptVector p InterfaceType BusNumber' L BusInterruptVector'"
  using assms by (auto simp add: HalGetInterruptVector_def unat_word_ariths)

theorem external_bus_resolution_witness:
  "(Eisa = Isa \<or> Eisa = Eisa)
   \<and> ReturnValue (HalGetInterruptVector jazz Eisa 0 2 0) = 41
   \<and> ReturnValue (HalGetInterruptVector jazz Eisa 1 9 7) = 41
   \<and> ReturnValue (HalGetInterruptVector jazz Eisa 0 5 0) = 37
   \<and> IrqlOut (HalGetInterruptVector jazz Eisa 0 5 0) = 5
   \<and> AffinityOut (HalGetInterruptVector jazz Eisa 0 5 0) = 1"
proof -
  have h: "Eisa = Isa \<or> Eisa = Eisa" by simp
  from external_bus_resolution [OF h, of jazz 0 0 1 7 5] show ?thesis
    by (simp add: jazz_def HalGetInterruptVector_def)
qed

text \<open>
  C5, as amended. For the interface type Internal the function returns the supplied bus
  interrupt vector unchanged as the system vector and an affinity of exactly processor 0
  (mask 1); the priority level is the supplied bus interrupt level cut to the 8 bits of
  \<^verbatim>\<open>KIRQL\<close>, which is the supplied level unchanged whenever that level is at most 255.
\<close>

theorem internal_resolution:
  assumes "HalGetInterruptVector p Internal BusNumber BusInterruptLevel BusInterruptVector = r"
  shows "ReturnValue r = BusInterruptVector \<and> AffinityOut r = 1 \<and>
         IrqlOut r = ucast BusInterruptLevel \<and>
         (BusInterruptLevel \<le> 255 \<longrightarrow> unat (IrqlOut r) = unat BusInterruptLevel)"
proof -
  have r: "r = \<lparr> ReturnValue = BusInterruptVector, IrqlOut = ucast BusInterruptLevel,
                  AffinityOut = 1 \<rparr>"
    using assms by (simp add: HalGetInterruptVector_def)
  have m: "unat (ucast BusInterruptLevel :: KIRQL) = unat BusInterruptLevel mod 256"
    by (simp add: unsigned_ucast_eq take_bit_eq_mod)
  have "BusInterruptLevel \<le> 255 \<Longrightarrow> unat BusInterruptLevel mod 256 = unat BusInterruptLevel"
    by (simp add: word_le_nat_alt)
  with r m show ?thesis by simp
qed

theorem internal_resolution_witness:
  "HalGetInterruptVector jazz Internal 0 3 17
     = \<lparr> ReturnValue = 17, IrqlOut = 3, AffinityOut = 1 \<rparr>
   \<and> (3 :: ULONG) \<le> 255
   \<and> unat (IrqlOut \<lparr> ReturnValue = 17, IrqlOut = 3, AffinityOut = 1 \<rparr>) = unat (3 :: ULONG)"
proof -
  have h: "HalGetInterruptVector jazz Internal 0 3 17
             = \<lparr> ReturnValue = 17, IrqlOut = 3, AffinityOut = 1 \<rparr>"
    by (simp add: HalGetInterruptVector_def)
  from internal_resolution [OF h] h show ?thesis by simp
qed

text \<open>
  C5 as stated fails: with bus interrupt level 256 the priority level returned for an
  internal device is 0, not the supplied level.
\<close>

theorem internal_level_unchanged_counterexample:
  "unat (IrqlOut (HalGetInterruptVector jazz Internal 0 256 7)) = 0
   \<and> unat (256 :: ULONG) = 256"
  by (simp add: HalGetInterruptVector_def)

text \<open>
  C8. For every interface type other than Internal, Isa and Eisa the function returns
  system vector 0, priority level 0 and the empty affinity mask, whatever the bus
  number, bus interrupt level and bus interrupt vector are.
\<close>

theorem absent_bus_resolution:
  assumes "InterfaceType \<noteq> Internal" "InterfaceType \<noteq> Isa" "InterfaceType \<noteq> Eisa"
  shows "HalGetInterruptVector p InterfaceType BusNumber BusInterruptLevel BusInterruptVector
           = \<lparr> ReturnValue = 0, IrqlOut = 0, AffinityOut = 0 \<rparr>"
  using assms by (simp add: HalGetInterruptVector_def)

theorem absent_bus_resolution_witness:
  "OtherInterface 3 \<noteq> Internal \<and> OtherInterface 3 \<noteq> Isa \<and> OtherInterface 3 \<noteq> Eisa
   \<and> HalGetInterruptVector jazz (OtherInterface 3) 1 2 40
       = \<lparr> ReturnValue = 0, IrqlOut = 0, AffinityOut = 0 \<rparr>"
proof -
  have h: "OtherInterface 3 \<noteq> Internal" "OtherInterface 3 \<noteq> Isa" "OtherInterface 3 \<noteq> Eisa"
    by simp_all
  from absent_bus_resolution [OF h, of jazz 1 2 40] h show ?thesis by simp
qed

text \<open>
  C9. In the internal-bus branch the bus interrupt level is stored through a cast to
  \<^verbatim>\<open>KIRQL\<close>: the priority level returned is the level modulo \<open>2 ^ 8\<close>, and it is the
  supplied level exactly when that level is at most 255.
\<close>

theorem internal_level_truncated:
  "unat (IrqlOut (HalGetInterruptVector p Internal BusNumber BusInterruptLevel BusInterruptVector))
     = unat BusInterruptLevel mod 2 ^ LENGTH(8) \<and>
   (unat (IrqlOut (HalGetInterruptVector p Internal BusNumber BusInterruptLevel BusInterruptVector))
     = unat BusInterruptLevel) = (BusInterruptLevel \<le> 255)"
proof -
  have m: "unat (ucast BusInterruptLevel :: KIRQL) = unat BusInterruptLevel mod 256"
    by (simp add: unsigned_ucast_eq take_bit_eq_mod)
  have "(unat BusInterruptLevel mod 256 = unat BusInterruptLevel) = (unat BusInterruptLevel < 256)"
    by (metis mod_less mod_less_divisor zero_less_numeral)
  also have "\<dots> = (BusInterruptLevel \<le> 255)"
    by (simp add: word_le_nat_alt) arith
  finally show ?thesis using m by (simp add: HalGetInterruptVector_def)
qed

text \<open>
  C10. Isa and Eisa are treated identically: for all bus numbers, bus interrupt levels and
  bus interrupt vectors the two interface types give the same system vector, priority
  level and affinity.
\<close>

theorem isa_eisa_same_resolution:
  "HalGetInterruptVector p Isa BusNumber BusInterruptLevel BusInterruptVector =
   HalGetInterruptVector p Eisa BusNumber BusInterruptLevel BusInterruptVector"
  by (simp add: HalGetInterruptVector_def)

end
